theory Spec2Isabelle
  imports Complex_Main
begin

section \<open>The projection engine of the life-plan simulator (src/store/simulator.ts)\<close>

text \<open>
  The store of \<^verbatim>\<open>simulator.ts\<close> holds the household's profiles and the derived
  cash-flow table; \<^verbatim>\<open>initializeCashFlow\<close> recomputes the table year by year,
  threading the closing assets of the previous year.

  Numbers. A JavaScript \<^verbatim>\<open>number\<close> that carries an age, a calendar year or an offset
  in years is an \<open>int\<close> here; one that carries an amount or a rate is an exact \<open>real\<close>.
  The rounding error of IEEE doubles, NaN, the infinities and the negative zero are not
  modelled: every statement below is about the exact arithmetic the code denotes.
\<close>

subsection \<open>Numeric primitives\<close>

text \<open>
  \<^verbatim>\<open>Number(x.toFixed(1))\<close>: the decimal with one fractional digit nearest to \<open>x\<close>; a
  tie takes the larger magnitude (\<^verbatim>\<open>toFixed\<close> formats \<open>-x\<close> and prefixes the sign when
  \<open>x < 0\<close>, and picks the larger \<open>n\<close> when two are equally near).
\<close>

definition toFixed1 :: "real \<Rightarrow> real" where
  "toFixed1 x =
     (if x < 0 then - (of_int \<lfloor>(- x) * 10 + 1 / 2\<rfloor> / 10)
      else of_int \<lfloor>x * 10 + 1 / 2\<rfloor> / 10)"

text \<open>\<^verbatim>\<open>Math.pow(b, e)\<close> at an integral exponent.\<close>

definition Math_pow :: "real \<Rightarrow> int \<Rightarrow> real" where
  "Math_pow b e = (if 0 \<le> e then b ^ nat e else 1 / b ^ nat (- e))"

subsection \<open>String constants of the source\<close>

text \<open>
  The schooling tracks are free-form strings in the source, compared against Japanese
  literals. A \<open>string\<close> is a list of bytes, so each literal is written as its UTF-8
  encoding; the code only ever tests these strings for equality.
\<close>

text \<open>\<open>shiritsu\<close> (private), bytes E7 A7 81 E7 AB 8B.\<close>

definition str_private :: string where
  "str_private = [CHR 0xE7, CHR 0xA7, CHR 0x81, CHR 0xE7, CHR 0xAB, CHR 0x8B]"

text \<open>\<open>ikanai\<close> (does not attend), bytes E8 A1 8C E3 81 8B E3 81 AA E3 81 84.\<close>

definition str_not_attending :: string where
  "str_not_attending =
     [CHR 0xE8, CHR 0xA1, CHR 0x8C, CHR 0xE3, CHR 0x81, CHR 0x8B,
      CHR 0xE3, CHR 0x81, CHR 0xAA, CHR 0xE3, CHR 0x81, CHR 0x84]"

text \<open>The common parts of the four university literals: \<open>daigaku\<close> followed by a
  full-width opening parenthesis, and \<open>kei\<close> followed by the closing one.\<close>

definition str_university_open :: string where
  "str_university_open =
     [CHR 0xE5, CHR 0xA4, CHR 0xA7, CHR 0xE5, CHR 0xAD, CHR 0xA6, CHR 0xEF, CHR 0xBC, CHR 0x88]"

definition str_kei_close :: string where
  "str_kei_close = [CHR 0xE7, CHR 0xB3, CHR 0xBB, CHR 0xEF, CHR 0xBC, CHR 0x89]"

text \<open>Public university, humanities.\<close>

definition str_public_humanities :: string where
  "str_public_humanities =
     [CHR 0xE5, CHR 0x85, CHR 0xAC, CHR 0xE7, CHR 0xAB, CHR 0x8B] @ str_university_open
     @ [CHR 0xE6, CHR 0x96, CHR 0x87] @ str_kei_close"

text \<open>Public university, science.\<close>

definition str_public_science :: string where
  "str_public_science =
     [CHR 0xE5, CHR 0x85, CHR 0xAC, CHR 0xE7, CHR 0xAB, CHR 0x8B] @ str_university_open
     @ [CHR 0xE7, CHR 0x90, CHR 0x86] @ str_kei_close"

text \<open>Private university, humanities.\<close>

definition str_private_humanities :: string where
  "str_private_humanities =
     str_private @ str_university_open @ [CHR 0xE6, CHR 0x96, CHR 0x87] @ str_kei_close"

text \<open>Private university, science.\<close>

definition str_private_science :: string where
  "str_private_science =
     str_private @ str_university_open @ [CHR 0xE7, CHR 0x90, CHR 0x86] @ str_kei_close"

subsection \<open>Data model\<close>

datatype Gender = Male | Female

datatype MaritalStatus = Single | Married | Planning

datatype HousingType = Rent | Own

record RentInfo =
  monthlyRent :: real
  annualIncreaseRate :: real

record OwnInfo =
  purchaseYear :: int
  purchasePrice :: real
  loanAmount :: real
  interestRate :: real
  loanTermYears :: int
  maintenanceCostRate :: real

record HousingInfo =
  housingType :: HousingType
  rent :: "RentInfo option"
  own :: "OwnInfo option"

text \<open>The optional spouse profile; each of its properties is optional too.\<close>

record SpouseInfo =
  spouse_age :: "int option"
  spouse_currentAge :: "int option"
  spouse_marriageAge :: "int option"
  spouse_occupation :: "string option"
  spouse_additionalExpense :: "real option"

record EducationPlan =
  nursery :: string
  preschool :: string
  elementary :: string
  juniorHigh :: string
  highSchool :: string
  university :: string

record Child =
  child_currentAge :: int
  child_educationPlan :: EducationPlan

record PlannedChild =
  yearsFromNow :: int
  planned_educationPlan :: EducationPlan

record BasicInfo =
  currentAge :: int
  startYear :: int
  deathAge :: int
  gender :: Gender
  monthlyLivingExpense :: real
  occupation :: string
  maritalStatus :: MaritalStatus
  housingInfo :: HousingInfo
  spouseInfo :: "SpouseInfo option"
  children :: "Child list"
  plannedChildren :: "PlannedChild list"

datatype SideIncomeType = OneTime | Recurring

record OneTimeIncome =
  oneTime_age :: int
  oneTime_amount :: real
  oneTime_description :: string

record RecurringIncome =
  monthlyAmount :: real
  startAge :: int
  endAge :: int
  recurring_description :: string

record SideIncome =
  sideIncomeType :: SideIncomeType
  oneTime :: "OneTimeIncome option"
  recurring :: "RecurringIncome option"

record SpouseIncomeInfo =
  spouse_annualIncome :: real
  spouse_severancePay :: real
  spouse_workStartAge :: int
  spouse_workEndAge :: int
  spouse_pensionAmount :: real

record IncomeInfo =
  annualIncome :: real
  raiseRate :: real
  severancePay :: real
  workStartAge :: int
  workEndAge :: int
  pensionStartAge :: int
  pensionAmount :: real
  sideIncomes :: "SideIncome list"
  spouse :: "SpouseIncomeInfo option"

datatype LifeEventType = Income | Expense

record LifeEvent =
  year :: int
  description :: string
  eventType :: LifeEventType
  category :: string
  amount :: real

record Assets =
  cash :: real
  savings :: real
  stocks :: real
  investmentTrust :: real
  realEstate :: real

record Liabilities =
  loans :: real
  creditCards :: real

record AssetsLiabilities =
  assets :: Assets
  liabilities :: Liabilities

record Parameters =
  inflationRate :: real
  educationCostIncreaseRate :: real
  investmentReturn :: real

text \<open>
  The keys of a cash-flow row (\<^verbatim>\<open>keyof CashFlowData[number]\<close>). A row is a finite map
  from these keys to numbers and the table a map from calendar years to rows:
  \<^verbatim>\<open>updateCashFlowValue\<close> can create a row that has only one of the keys, so a row
  is not a record of eight numbers.
\<close>

datatype CashFlowField =
  mainIncome | sideIncome | investmentIncome | spouseIncome
  | livingExpense | housingExpense | educationExpense | otherExpense

type_synonym CashFlowRow = "CashFlowField \<rightharpoonup> real"

type_synonym CashFlowData = "int \<rightharpoonup> CashFlowRow"

subsection \<open>Life events (calculateLifeEventExpense)\<close>

text \<open>
  The callback of \<^verbatim>\<open>lifeEvents.reduce\<close>: an event of the target year adds its
  amount when it is an expense and subtracts it otherwise.
\<close>

definition lifeEventStep :: "int \<Rightarrow> real \<Rightarrow> LifeEvent \<Rightarrow> real" where
  "lifeEventStep yr tot event =
     (if year event = yr then
        (if eventType event = Expense then tot + amount event else tot - amount event)
      else tot)"

definition calculateLifeEventExpense :: "LifeEvent list \<Rightarrow> int \<Rightarrow> real" where
  "calculateLifeEventExpense events yr = toFixed1 (foldl (lifeEventStep yr) 0 events)"


subsection \<open>Education (calculateEducationExpense, getUniversityCost)\<close>

definition getUniversityCost :: "string \<Rightarrow> real" where
  "getUniversityCost universityType =
     (if universityType = str_public_humanities then 325
      else if universityType = str_public_science then 375
      else if universityType = str_private_humanities then 550
      else if universityType = str_private_science then 650
      else 0)"

text \<open>
  The schooling stage of a child of a given age and its base cost: the \<^verbatim>\<open>costs\<close>
  table and the six guarded assignments to \<^verbatim>\<open>expense\<close>, which both callbacks of
  \<^verbatim>\<open>calculateEducationExpense\<close> repeat word for word. The assignments run in the
  order of the source, each overriding the value before it.
\<close>

definition stageExpense :: "EducationPlan \<Rightarrow> int \<Rightarrow> real" where
  "stageExpense plan childAge =
     (let costs_nursery = (if nursery plan = str_private then 50 else 23.3);
          costs_preschool = (if preschool plan = str_private then 100 else 58.3);
          costs_elementary = (if elementary plan = str_private then 83.3 else 41.7);
          costs_juniorHigh = (if juniorHigh plan = str_private then 133.3 else 66.7);
          costs_highSchool = (if highSchool plan = str_private then 250 else 83.3);
          e0 = 0;
          e1 = (if childAge \<ge> 0 \<and> childAge \<le> 2
                then (if nursery plan \<noteq> str_not_attending then costs_nursery else 0) else e0);
          e2 = (if childAge \<ge> 3 \<and> childAge \<le> 5
                then (if preschool plan \<noteq> str_not_attending then costs_preschool else 0) else e1);
          e3 = (if childAge \<ge> 6 \<and> childAge \<le> 11
                then (if elementary plan \<noteq> str_not_attending then costs_elementary else 0) else e2);
          e4 = (if childAge \<ge> 12 \<and> childAge \<le> 14
                then (if juniorHigh plan \<noteq> str_not_attending then costs_juniorHigh else 0) else e3);
          e5 = (if childAge \<ge> 15 \<and> childAge \<le> 17
                then (if highSchool plan \<noteq> str_not_attending then costs_highSchool else 0) else e4);
          e6 = (if childAge \<ge> 18 \<and> childAge \<le> 21
                then (if university plan \<noteq> str_not_attending
                      then getUniversityCost (university plan) else 0) else e5)
      in e6)"

text \<open>The callback of \<^verbatim>\<open>children.reduce\<close>.\<close>

definition existingChildStep :: "int \<Rightarrow> int \<Rightarrow> real \<Rightarrow> real \<Rightarrow> Child \<Rightarrow> real" where
  "existingChildStep yr startYr rate tot child =
     (let childAge = child_currentAge child + (yr - startYr);
          expense = stageExpense (child_educationPlan child) childAge;
          yearsSinceStart = yr - startYr;
          increaseMultiplier = Math_pow (1 + rate / 100) yearsSinceStart
      in tot + expense * increaseMultiplier)"

text \<open>The callback of \<^verbatim>\<open>plannedChildren.reduce\<close>.\<close>

definition plannedChildStep :: "int \<Rightarrow> int \<Rightarrow> real \<Rightarrow> real \<Rightarrow> PlannedChild \<Rightarrow> real" where
  "plannedChildStep yr startYr rate tot child =
     (let yearsSinceStart = yr - startYr
      in if yearsSinceStart \<ge> yearsFromNow child then
           (let childAge = yearsSinceStart - yearsFromNow child;
                expense = stageExpense (planned_educationPlan child) childAge;
                increaseMultiplier = Math_pow (1 + rate / 100) yearsSinceStart
            in tot + expense * increaseMultiplier)
         else tot)"

text \<open>The fourth argument, the household's current age, is not used by the source.\<close>

definition calculateEducationExpense ::
  "Child list \<Rightarrow> PlannedChild list \<Rightarrow> int \<Rightarrow> int \<Rightarrow> int \<Rightarrow> real \<Rightarrow> real" where
  "calculateEducationExpense cs pcs yr curAge startYr rate =
     (let existingChildrenExpense = foldl (existingChildStep yr startYr rate) 0 cs;
          plannedChildrenExpense = foldl (plannedChildStep yr startYr rate) 0 pcs
      in toFixed1 (existingChildrenExpense + plannedChildrenExpense))"


subsection \<open>The imported calculators (lib/calculations)\<close>

text \<open>
  \<^verbatim>\<open>calculateNetIncomeWithRaise\<close>, \<^verbatim>\<open>calculateHousingExpense\<close> and
  \<^verbatim>\<open>calculatePension\<close> are imported from \<^verbatim>\<open>@/lib/calculations\<close>, which is not among
  the sources. The engine takes them as a parameter: every theorem about the engine
  holds for whatever these three functions compute.
\<close>

record Calculations =
  calculateNetIncomeWithRaise :: "real \<Rightarrow> string \<Rightarrow> real \<Rightarrow> int \<Rightarrow> int \<Rightarrow> real"
  calculateHousingExpense :: "HousingInfo \<Rightarrow> int \<Rightarrow> real"
  calculatePension :: "real \<Rightarrow> int \<Rightarrow> int \<Rightarrow> int \<Rightarrow> string \<Rightarrow> real"

subsection \<open>Failures\<close>

text \<open>
  Reading a property of \<^verbatim>\<open>undefined\<close> throws a \<^verbatim>\<open>TypeError\<close>; using
  \<^verbatim>\<open>undefined\<close> as an operand of arithmetic gives NaN, which the model has no value
  for and counts as a failure as well. A computation that can fail returns
  \<open>error + 'a\<close>.
\<close>

datatype error = TypeError | NotANumber

text \<open>\<^verbatim>\<open>obj.\<close>: the object a property is read from.\<close>

definition deref :: "'a option \<Rightarrow> error + 'a" where
  "deref obj = (case obj of None \<Rightarrow> Inl TypeError | Some x \<Rightarrow> Inr x)"

text \<open>An optional number used as an operand.\<close>

definition operand :: "'a option \<Rightarrow> error + 'a" where
  "operand v = (case v of None \<Rightarrow> Inl NotANumber | Some x \<Rightarrow> Inr x)"

text \<open>\<^verbatim>\<open>obj?.prop\<close>: \<^verbatim>\<open>undefined\<close> when the object is.\<close>

definition optChain :: "'a option \<Rightarrow> ('a \<Rightarrow> 'b option) \<Rightarrow> 'b option" where
  "optChain obj prop = (case obj of None \<Rightarrow> None | Some x \<Rightarrow> prop x)"

text \<open>\<^verbatim>\<open>s || d\<close> on an optional string: \<^verbatim>\<open>undefined\<close> and the empty string are falsy.\<close>

definition orDefault :: "string option \<Rightarrow> string \<Rightarrow> string" where
  "orDefault s d = (case s of None \<Rightarrow> d | Some x \<Rightarrow> if x = [] then d else x)"

definition bindE :: "error + 'a \<Rightarrow> ('a \<Rightarrow> error + 'b) \<Rightarrow> error + 'b" where
  "bindE m f = (case m of Inl e \<Rightarrow> Inl e | Inr x \<Rightarrow> f x)"

subsection \<open>The store\<close>

record PurchaseInfo =
  purchaseDate :: int
  price :: real
  loan :: real
  purchase_interestRate :: real
  purchase_term :: real
  maintenanceCost :: real

record ExpenseHousingInfo =
  expense_housingType :: HousingType
  expense_monthlyAmount :: real
  expense_annualIncreaseRate :: "real option"
  purchaseInfo :: "PurchaseInfo option"

record EducationExpenseInfo =
  expense_nursery :: real
  expense_preschool :: real
  expense_elementary :: real
  expense_juniorHigh :: real
  expense_highSchool :: real
  expense_university :: real

record ExpenseInfo =
  expense_livingExpense :: real
  expense_housingInfo :: ExpenseHousingInfo
  expense_educationExpense :: EducationExpenseInfo

record SimulatorState =
  currentStep :: int
  basicInfo :: BasicInfo
  incomeInfo :: IncomeInfo
  expenseInfo :: ExpenseInfo
  lifeEvents :: "LifeEvent list"
  assetsLiabilities :: AssetsLiabilities
  parameters :: Parameters
  cashFlow :: CashFlowData

text \<open>The state the store is created with.\<close>

definition initialState :: SimulatorState where
  "initialState =
     \<lparr>currentStep = 1,
      basicInfo =
        \<lparr>currentAge = 30, startYear = 2025, deathAge = 80, gender = Male,
         monthlyLivingExpense = 0, occupation = ''company_employee'',
         maritalStatus = Single,
         housingInfo =
           \<lparr>housingType = Rent,
            rent = Some \<lparr>monthlyRent = 0, annualIncreaseRate = 0\<rparr>, own = None\<rparr>,
         spouseInfo = None, children = [], plannedChildren = []\<rparr>,
      incomeInfo =
        \<lparr>annualIncome = 0, raiseRate = 0, severancePay = 0, workStartAge = 22,
         workEndAge = 60, pensionStartAge = 65, pensionAmount = 0, sideIncomes = [],
         spouse = None\<rparr>,
      expenseInfo =
        \<lparr>expense_livingExpense = 0,
         expense_housingInfo =
           \<lparr>expense_housingType = Rent, expense_monthlyAmount = 0,
            expense_annualIncreaseRate = None, purchaseInfo = None\<rparr>,
         expense_educationExpense =
           \<lparr>expense_nursery = 0, expense_preschool = 0, expense_elementary = 0,
            expense_juniorHigh = 0, expense_highSchool = 0, expense_university = 0\<rparr>\<rparr>,
      lifeEvents = [],
      assetsLiabilities =
        \<lparr>assets = \<lparr>cash = 0, savings = 0, stocks = 0, investmentTrust = 0, realEstate = 0\<rparr>,
         liabilities = \<lparr>loans = 0, creditCards = 0\<rparr>\<rparr>,
      parameters = \<lparr>inflationRate = 1, educationCostIncreaseRate = 2, investmentReturn = 3\<rparr>,
      cashFlow = Map.empty\<rparr>"

subsection \<open>updateCashFlowValue\<close>

text \<open>
  The new table spreads the old one and binds the year to the old row of that year,
  spread, with the one field rebound. Spreading \<^verbatim>\<open>undefined\<close> gives no property, so
  a year without a row gets a row with that one field. Nothing else is set and
  \<^verbatim>\<open>initializeCashFlow\<close> is not called.
\<close>

definition updateCashFlowValue ::
  "int \<Rightarrow> CashFlowField \<Rightarrow> real \<Rightarrow> SimulatorState \<Rightarrow> SimulatorState" where
  "updateCashFlowValue yr field v state =
     state\<lparr>cashFlow :=
       (cashFlow state)
         (yr \<mapsto> (case cashFlow state yr of None \<Rightarrow> Map.empty | Some row \<Rightarrow> row)(field \<mapsto> v))\<rparr>"

subsection \<open>initializeCashFlow\<close>

text \<open>\<^verbatim>\<open>Array.from({ length: yearsUntilDeath + 1 }, (_, i) => startYear + i)\<close>; a
  negative length is taken as 0.\<close>

definition years :: "BasicInfo \<Rightarrow> int list" where
  "years b =
     (let yearsUntilDeath = deathAge b - currentAge b
      in map (\<lambda>i. startYear b + int i) [0..<nat (yearsUntilDeath + 1)])"

text \<open>The values of the asset buckets summed, minus those of the liability buckets.\<close>

definition initialAssets :: "AssetsLiabilities \<Rightarrow> real" where
  "initialAssets al =
     foldl (+) 0 [cash (assets al), savings (assets al), stocks (assets al),
                  investmentTrust (assets al), realEstate (assets al)]
     - foldl (+) 0 [loans (liabilities al), creditCards (liabilities al)]"

text \<open>Main income of a year: the net income inside the work window, plus the pension
  from the pension start age on.\<close>

definition calcMainIncome :: "Calculations \<Rightarrow> BasicInfo \<Rightarrow> IncomeInfo \<Rightarrow> int \<Rightarrow> real" where
  "calcMainIncome L b inc yr =
     (let yearsSinceStart = yr - startYear b;
          age = currentAge b + yearsSinceStart;
          m0 = 0;
          m1 = (if age \<ge> workStartAge inc \<and> age \<le> workEndAge inc
                then calculateNetIncomeWithRaise L (annualIncome inc) (occupation b)
                       (raiseRate inc) yr (startYear b)
                else m0);
          m2 = (if age \<ge> pensionStartAge inc
                then m1 + calculatePension L (annualIncome inc) (workStartAge inc)
                            (workEndAge inc) (pensionStartAge inc) (occupation b)
                else m1)
      in m2)"

text \<open>
  The income of a spouse of a given age in a given year, counted from a base year: the
  two guarded statements that the branches for \<^verbatim>\<open>'married'\<close> and \<^verbatim>\<open>'planning'\<close>
  share, up to the age and the base year they pass.
\<close>

definition spouseEarnings ::
  "Calculations \<Rightarrow> IncomeInfo \<Rightarrow> SpouseIncomeInfo \<Rightarrow> string \<Rightarrow> int \<Rightarrow> int \<Rightarrow> int \<Rightarrow> real" where
  "spouseEarnings L inc sp occ spouseAge yr baseYear =
     (let s0 = 0;
          s1 = (if spouseAge \<ge> spouse_workStartAge sp \<and> spouseAge \<le> spouse_workEndAge sp
                then calculateNetIncomeWithRaise L (spouse_annualIncome sp) occ 0 yr baseYear
                else s0);
          s2 = (if spouseAge \<ge> pensionStartAge inc
                then s1 + calculatePension L (spouse_annualIncome sp) (spouse_workStartAge sp)
                            (spouse_workEndAge sp) (pensionStartAge inc) occ
                else s1)
      in s2)"

text \<open>The year of the planned marriage.\<close>

definition marriageYearOf :: "BasicInfo \<Rightarrow> int \<Rightarrow> int" where
  "marriageYearOf b marriageAge = startYear b + (marriageAge - currentAge b)"

text \<open>
  Spouse income of a year. The guards are those of the source; behind them each read
  of a property of the optional spouse profile or of the optional spouse income
  record is a \<open>deref\<close>, and each optional number that enters arithmetic an
  \<open>operand\<close>, so that a read the guards did not cover would show as a failure.
\<close>

definition calcSpouseIncome ::
  "Calculations \<Rightarrow> BasicInfo \<Rightarrow> IncomeInfo \<Rightarrow> int \<Rightarrow> error + real" where
  "calcSpouseIncome L b inc yr =
     (let yearsSinceStart = yr - startYear b
      in if maritalStatus b = Married \<and> optChain (spouseInfo b) spouse_currentAge \<noteq> None
            \<and> spouse inc \<noteq> None then
           bindE (deref (spouseInfo b)) (\<lambda>si.
           bindE (operand (spouse_currentAge si)) (\<lambda>ca.
           bindE (deref (spouse inc)) (\<lambda>sp.
             Inr (spouseEarnings L inc sp (orDefault (spouse_occupation si) ''company_employee'')
                    (ca + yearsSinceStart) yr (startYear b)))))
         else if maritalStatus b = Planning
                 \<and> optChain (spouseInfo b) spouse_marriageAge \<noteq> None then
           bindE (deref (spouseInfo b)) (\<lambda>si.
           bindE (operand (spouse_marriageAge si)) (\<lambda>ma.
             (let marriageYear = marriageYearOf b ma
              in if yr \<ge> marriageYear \<and> spouse inc \<noteq> None \<and> spouse_age si \<noteq> None then
                   bindE (operand (spouse_age si)) (\<lambda>a.
                   bindE (deref (spouse inc)) (\<lambda>sp.
                     Inr (spouseEarnings L inc sp
                            (orDefault (spouse_occupation si) ''company_employee'')
                            (a + (yr - marriageYear)) yr marriageYear)))
                 else Inr 0)))
         else Inr 0)"

text \<open>Only a positive balance earns a return.\<close>

definition calcInvestmentReturn :: "Parameters \<Rightarrow> real \<Rightarrow> real" where
  "calcInvestmentReturn prm previousAssets =
     (if previousAssets > 0 then toFixed1 (previousAssets * (investmentReturn prm / 100)) else 0)"

definition calcLivingExpense :: "BasicInfo \<Rightarrow> Parameters \<Rightarrow> int \<Rightarrow> real" where
  "calcLivingExpense b prm yr =
     (let yearsSinceStart = yr - startYear b;
          inflationMultiplier = Math_pow (1 + inflationRate prm / 100) yearsSinceStart
      in toFixed1 (monthlyLivingExpense b * 12 * inflationMultiplier))"

definition calcHousingExpense :: "Calculations \<Rightarrow> BasicInfo \<Rightarrow> int \<Rightarrow> real" where
  "calcHousingExpense L b yr = toFixed1 (calculateHousingExpense L (housingInfo b) yr)"

text \<open>The state of the loop over the years: the closing assets carried to the next
  year and the table built so far.\<close>

record LoopState =
  previousYearAssets :: real
  newCashFlow :: CashFlowData

text \<open>The row stored for a year, from the year's spouse income and the closing assets
  of the year before.\<close>

definition yearRow ::
  "Calculations \<Rightarrow> SimulatorState \<Rightarrow> real \<Rightarrow> int \<Rightarrow> real \<Rightarrow> CashFlowRow" where
  "yearRow L state previousAssets yr spouseInc =
     (let b = basicInfo state; prm = parameters state
      in [mainIncome \<mapsto> toFixed1 (calcMainIncome L b (incomeInfo state) yr),
          sideIncome \<mapsto> 0,
          investmentIncome \<mapsto> toFixed1 (calcInvestmentReturn prm previousAssets),
          spouseIncome \<mapsto> toFixed1 spouseInc,
          livingExpense \<mapsto> toFixed1 (calcLivingExpense b prm yr),
          housingExpense \<mapsto> toFixed1 (calcHousingExpense L b yr),
          educationExpense \<mapsto>
            toFixed1 (calculateEducationExpense (children b) (plannedChildren b) yr
                        (currentAge b) (startYear b) (educationCostIncreaseRate prm)),
          otherExpense \<mapsto> toFixed1 (calculateLifeEventExpense (lifeEvents state) yr)])"

text \<open>The closing assets of a year, from those of the year before.\<close>

definition nextAssets ::
  "Calculations \<Rightarrow> SimulatorState \<Rightarrow> real \<Rightarrow> int \<Rightarrow> real \<Rightarrow> real" where
  "nextAssets L state previousAssets yr spouseInc =
     (let b = basicInfo state; prm = parameters state;
          income = calcMainIncome L b (incomeInfo state) yr + spouseInc
                   + calcInvestmentReturn prm previousAssets;
          expenses = calcLivingExpense b prm yr + calcHousingExpense L b yr
                     + calculateEducationExpense (children b) (plannedChildren b) yr
                         (currentAge b) (startYear b) (educationCostIncreaseRate prm)
                     + calculateLifeEventExpense (lifeEvents state) yr
      in toFixed1 (previousAssets + income - expenses))"

text \<open>The body of \<^verbatim>\<open>years.forEach\<close>.\<close>

definition yearBody ::
  "Calculations \<Rightarrow> SimulatorState \<Rightarrow> LoopState \<Rightarrow> int \<Rightarrow> error + LoopState" where
  "yearBody L state st yr =
     bindE (calcSpouseIncome L (basicInfo state) (incomeInfo state) yr) (\<lambda>spouseInc.
       Inr \<lparr>previousYearAssets = nextAssets L state (previousYearAssets st) yr spouseInc,
            newCashFlow = (newCashFlow st)
              (yr \<mapsto> yearRow L state (previousYearAssets st) yr spouseInc)\<rparr>)"

text \<open>\<^verbatim>\<open>forEach\<close> with a body that can fail: the first failure ends the loop.\<close>

fun forEach :: "('s \<Rightarrow> 'a \<Rightarrow> error + 's) \<Rightarrow> 'a list \<Rightarrow> 's \<Rightarrow> error + 's" where
  "forEach body [] st = Inr st"
| "forEach body (x # xs) st = bindE (body st x) (forEach body xs)"

definition loopStart :: "SimulatorState \<Rightarrow> LoopState" where
  "loopStart state =
     \<lparr>previousYearAssets = initialAssets (assetsLiabilities state), newCashFlow = Map.empty\<rparr>"

definition initializeCashFlow :: "Calculations \<Rightarrow> SimulatorState \<Rightarrow> error + SimulatorState" where
  "initializeCashFlow L state =
     bindE (forEach (yearBody L state) (years (basicInfo state)) (loopStart state))
       (\<lambda>st. Inr (state\<lparr>cashFlow := newCashFlow st\<rparr>))"


text \<open>The state of the loop when the body has run for the first \<open>k\<close> years.\<close>

definition loopStateAfter :: "Calculations \<Rightarrow> SimulatorState \<Rightarrow> nat \<Rightarrow> error + LoopState" where
  "loopStateAfter L state k =
     forEach (yearBody L state) (take k (years (basicInfo state))) (loopStart state)"

text \<open>The closing assets after the first \<open>k\<close> years: \<^verbatim>\<open>previousYearAssets\<close> at that
  point of the loop.\<close>

definition closingAssets :: "Calculations \<Rightarrow> SimulatorState \<Rightarrow> nat \<Rightarrow> error + real" where
  "closingAssets L state k =
     bindE (loopStateAfter L state k) (\<lambda>st. Inr (previousYearAssets st))"

text \<open>\<^verbatim>\<open>table[yr]?.[field]\<close>: a cell of a table, \<open>None\<close> where the table has no
  row for the year or the row has no such field.\<close>

definition cellOf :: "CashFlowData \<Rightarrow> int \<Rightarrow> CashFlowField \<Rightarrow> real option" where
  "cellOf table yr field = (case table yr of None \<Rightarrow> None | Some row \<Rightarrow> row field)"

text \<open>A cell of the table that a full recompute stores.\<close>

definition recomputedCell ::
  "Calculations \<Rightarrow> SimulatorState \<Rightarrow> int \<Rightarrow> CashFlowField \<Rightarrow> error + real option" where
  "recomputedCell L state yr field =
     bindE (initializeCashFlow L state) (\<lambda>state'. Inr (cellOf (cashFlow state') yr field))"

subsection \<open>Concrete inputs\<close>

text \<open>
  Modelled from the spec: \<^verbatim>\<open>lib/calculations\<close> is missing from the sources, and the
  specification gives the shape of its three functions but not their constants. This
  instance follows that shape with constants of its own (a net ratio of 0.8, and 0 for a
  homemaker; a pension of 1 percent of the income per year worked, halved outside company
  employment; rent without increase). It serves only to run the engine on concrete
  inputs; no general statement below depends on it.
\<close>

definition exampleCalculations :: Calculations where
  "exampleCalculations =
     \<lparr>calculateNetIncomeWithRaise =
        (\<lambda>baseIncome occ rate yr startYr.
           toFixed1 (baseIncome * Math_pow (1 + rate / 100) (yr - startYr)
                     * (if occ = ''homemaker'' then 0 else 0.8))),
      calculateHousingExpense =
        (\<lambda>h yr. case rent h of None \<Rightarrow> 0
                 | Some r \<Rightarrow> if housingType h = Rent then monthlyRent r * 12 else 0),
      calculatePension =
        (\<lambda>baseIncome workStart workEnd pensionStart occ.
           baseIncome * of_int (max 0 (workEnd - workStart)) / 100
           * (if occ = ''company_employee'' then 1 else 1 / 2))\<rparr>"

text \<open>
  A household of the initial state, aged 64 and simulated to 66 (the years 2025 to
  2027), retired at 60 with a former income of 500, a pension from 65, living expenses of
  20 a month, cash of 1000 against loans of 200, and two life events in 2026.
\<close>

definition retiringState :: SimulatorState where
  "retiringState =
     initialState
       \<lparr>basicInfo := (basicInfo initialState)
          \<lparr>currentAge := 64, deathAge := 66, monthlyLivingExpense := 20\<rparr>,
        incomeInfo := (incomeInfo initialState)\<lparr>annualIncome := 500\<rparr>,
        lifeEvents :=
          [\<lparr>year = 2026, description = ''gift'', eventType = Income, category = ''family'',
            amount = 50\<rparr>,
           \<lparr>year = 2026, description = ''car'', eventType = Expense, category = ''car'',
            amount = 120\<rparr>],
        assetsLiabilities :=
          \<lparr>assets = \<lparr>cash = 1000, savings = 0, stocks = 0, investmentTrust = 0,
                      realEstate = 0\<rparr>,
           liabilities = \<lparr>loans = 200, creditCards = 0\<rparr>\<rparr>\<rparr>"

text \<open>
  A household of the initial state, aged 30 and simulated to 33 (the years 2025 to
  2028), planning to marry at 32, that is in 2027, a spouse who is 28 at the marriage
  and earns 300.
\<close>

definition engagedState :: SimulatorState where
  "engagedState =
     initialState
       \<lparr>basicInfo := (basicInfo initialState)
          \<lparr>deathAge := 33, maritalStatus := Planning,
           spouseInfo := Some \<lparr>spouse_age = Some 28, spouse_currentAge = None,
                               spouse_marriageAge = Some 32, spouse_occupation = None,
                               spouse_additionalExpense = None\<rparr>\<rparr>,
        incomeInfo := (incomeInfo initialState)
          \<lparr>spouse := Some \<lparr>spouse_annualIncome = 300, spouse_severancePay = 0,
                           spouse_workStartAge = 22, spouse_workEndAge = 60,
                           spouse_pensionAmount = 0\<rparr>\<rparr>\<rparr>"

text \<open>A married household of the initial state, simulated to 31 (the years 2025 and
  2026), that has a spouse income record but no spouse profile.\<close>

definition marriedAloneState :: SimulatorState where
  "marriedAloneState =
     initialState
       \<lparr>basicInfo := (basicInfo initialState)\<lparr>deathAge := 31, maritalStatus := Married\<rparr>,
        incomeInfo := (incomeInfo initialState)
          \<lparr>spouse := Some \<lparr>spouse_annualIncome = 300, spouse_severancePay = 0,
                           spouse_workStartAge = 22, spouse_workEndAge = 60,
                           spouse_pensionAmount = 0\<rparr>\<rparr>\<rparr>"

text \<open>The initial state with a table of two rows, for 2025 and 2026.\<close>

definition editedState :: SimulatorState where
  "editedState =
     initialState
       \<lparr>cashFlow := [2025 \<mapsto> [mainIncome \<mapsto> 400, livingExpense \<mapsto> 240],
                     2026 \<mapsto> [mainIncome \<mapsto> 404, livingExpense \<mapsto> 242.4]]\<rparr>"





section \<open>Rounding\<close>

lemma toFixed1_zero: "toFixed1 0 = 0"
  by (simp add: toFixed1_def)









section \<open>The loop over the years\<close>

lemma bindE_Inr [simp]: "bindE (Inr x) f = f x"
  by (simp add: bindE_def)

lemma bindE_Inl [simp]: "bindE (Inl e) f = Inl e"
  by (simp add: bindE_def)

lemma calcSpouseIncome_total: "\<exists>v. calcSpouseIncome L b inc yr = Inr v"
  by (auto simp: calcSpouseIncome_def Let_def optChain_def deref_def operand_def
           split: option.splits)

lemma yearBody_total: "\<exists>st'. yearBody L state st yr = Inr st'"
proof -
  obtain v where "calcSpouseIncome L (basicInfo state) (incomeInfo state) yr = Inr v"
    using calcSpouseIncome_total by blast
  then show ?thesis by (simp add: yearBody_def)
qed

lemma forEach_append:
  "forEach body (xs @ ys) st = bindE (forEach body xs st) (forEach body ys)"
proof (induction xs arbitrary: st)
  case Nil
  show ?case by simp
next
  case (Cons x xs)
  show ?case
  proof (cases "body st x")
    case (Inl e)
    then show ?thesis by simp
  next
    case (Inr st')
    then show ?thesis by (simp add: Cons.IH)
  qed
qed

lemma forEach_yearBody_total: "\<exists>st'. forEach (yearBody L state) ys st = Inr st'"
proof (induction ys arbitrary: st)
  case Nil
  show ?case by simp
next
  case (Cons y ys)
  obtain st1 where "yearBody L state st y = Inr st1"
    using yearBody_total by blast
  with Cons.IH [of st1] show ?case by simp
qed

lemma length_years: "length (years b) = nat (deathAge b - currentAge b + 1)"
  by (simp add: years_def)

lemma nth_years: "k < length (years b) \<Longrightarrow> years b ! k = startYear b + int k"
  by (simp add: years_def)


lemma distinct_years: "distinct (years b)"
  by (simp add: years_def distinct_map inj_on_def)

lemma set_years:
  "set (years b) = {startYear b .. startYear b + (deathAge b - currentAge b)}"
proof
  show "set (years b) \<subseteq> {startYear b .. startYear b + (deathAge b - currentAge b)}"
    by (auto simp: years_def)
  show "{startYear b .. startYear b + (deathAge b - currentAge b)} \<subseteq> set (years b)"
  proof
    fix y assume "y \<in> {startYear b .. startYear b + (deathAge b - currentAge b)}"
    then have "y = startYear b + int (nat (y - startYear b))"
      and "nat (y - startYear b) \<in> {0..<nat (deathAge b - currentAge b + 1)}"
      by auto
    then have "y \<in> (\<lambda>i. startYear b + int i) ` {0..<nat (deathAge b - currentAge b + 1)}"
      by (rule image_eqI)
    then show "y \<in> set (years b)"
      by (simp add: years_def)
  qed
qed

lemma years_upto: "years b = [startYear b .. startYear b + (deathAge b - currentAge b)]"
  by (rule sorted_distinct_set_unique)
     (simp_all add: distinct_years set_years, simp add: years_def sorted_map)


lemma forEach_yearBody_frame:
  "forEach (yearBody L state) ys st = Inr st' \<Longrightarrow> y \<notin> set ys
   \<Longrightarrow> newCashFlow st' y = newCashFlow st y"
proof (induction ys arbitrary: st)
  case Nil
  then show ?case by simp
next
  case (Cons x xs)
  obtain sp where sp: "calcSpouseIncome L (basicInfo state) (incomeInfo state) x = Inr sp"
    using calcSpouseIncome_total by blast
  define st1 where "st1 = \<lparr>previousYearAssets = nextAssets L state (previousYearAssets st) x sp,
            newCashFlow = (newCashFlow st)
              (x \<mapsto> yearRow L state (previousYearAssets st) x sp)\<rparr>"
  have step: "yearBody L state st x = Inr st1"
    by (simp add: yearBody_def sp st1_def)
  with Cons.prems have "forEach (yearBody L state) xs st1 = Inr st'" by simp
  moreover from Cons.prems have "y \<notin> set xs" "y \<noteq> x" by auto
  ultimately have "newCashFlow st' y = newCashFlow st1 y" using Cons.IH by blast
  with \<open>y \<noteq> x\<close> show ?case by (simp add: st1_def)
qed

lemma forEach_yearBody_dom:
  "forEach (yearBody L state) ys st = Inr st'
   \<Longrightarrow> dom (newCashFlow st') = dom (newCashFlow st) \<union> set ys"
proof (induction ys arbitrary: st)
  case Nil
  then show ?case by simp
next
  case (Cons x xs)
  obtain sp where sp: "calcSpouseIncome L (basicInfo state) (incomeInfo state) x = Inr sp"
    using calcSpouseIncome_total by blast
  define st1 where "st1 = \<lparr>previousYearAssets = nextAssets L state (previousYearAssets st) x sp,
            newCashFlow = (newCashFlow st)
              (x \<mapsto> yearRow L state (previousYearAssets st) x sp)\<rparr>"
  have step: "yearBody L state st x = Inr st1"
    by (simp add: yearBody_def sp st1_def)
  with Cons.prems have "forEach (yearBody L state) xs st1 = Inr st'" by simp
  then have "dom (newCashFlow st') = dom (newCashFlow st1) \<union> set xs" by (rule Cons.IH)
  then show ?case by (auto simp: st1_def)
qed

lemma loopStateAfter_total: "\<exists>st. loopStateAfter L state k = Inr st"
  unfolding loopStateAfter_def by (rule forEach_yearBody_total)

lemma loopStateAfter_Suc:
  assumes "k < length (years (basicInfo state))"
    and "loopStateAfter L state k = Inr st"
  shows "loopStateAfter L state (Suc k) =
           yearBody L state st (startYear (basicInfo state) + int k)"
proof -
  have "take (Suc k) (years (basicInfo state))
        = take k (years (basicInfo state)) @ [startYear (basicInfo state) + int k]"
    using assms(1) by (simp add: take_Suc_conv_app_nth nth_years)
  then show ?thesis
    using assms(2)
    by (cases "yearBody L state st (startYear (basicInfo state) + int k)")
       (simp_all add: loopStateAfter_def forEach_append)
qed

lemma initializeCashFlow_split:
  assumes k: "k < length (years (basicInfo state))"
    and st: "loopStateAfter L state k = Inr st"
    and st1: "yearBody L state st (startYear (basicInfo state) + int k) = Inr st1"
  shows "\<exists>st'. forEach (yearBody L state) (drop (Suc k) (years (basicInfo state))) st1 = Inr st'
           \<and> initializeCashFlow L state = Inr (state\<lparr>cashFlow := newCashFlow st'\<rparr>)"
proof -
  let ?ys = "years (basicInfo state)"
  obtain st' where st': "forEach (yearBody L state) (drop (Suc k) ?ys) st1 = Inr st'"
    using forEach_yearBody_total by blast
  have "?ys = take k ?ys @ (startYear (basicInfo state) + int k) # drop (Suc k) ?ys"
    using k by (metis id_take_nth_drop nth_years)
  then have "forEach (yearBody L state) ?ys (loopStart state)
             = forEach (yearBody L state)
                 (take k ?ys @ (startYear (basicInfo state) + int k) # drop (Suc k) ?ys)
                 (loopStart state)"
    by simp
  also have "\<dots> = Inr st'"
    using st st1 st' by (simp add: forEach_append loopStateAfter_def)
  finally show ?thesis
    using st' by (simp add: initializeCashFlow_def)
qed

lemma year_of_recompute:
  assumes k: "k < length (years (basicInfo state))"
  shows "\<exists>a sp state'.
           closingAssets L state k = Inr a
           \<and> calcSpouseIncome L (basicInfo state) (incomeInfo state)
                (startYear (basicInfo state) + int k) = Inr sp
           \<and> closingAssets L state (Suc k)
               = Inr (nextAssets L state a (startYear (basicInfo state) + int k) sp)
           \<and> initializeCashFlow L state = Inr state'
           \<and> cashFlow state' (startYear (basicInfo state) + int k)
               = Some (yearRow L state a (startYear (basicInfo state) + int k) sp)"
proof -
  let ?y = "startYear (basicInfo state) + int k"
  let ?ys = "years (basicInfo state)"
  obtain st where st: "loopStateAfter L state k = Inr st"
    using loopStateAfter_total by blast
  obtain sp where sp: "calcSpouseIncome L (basicInfo state) (incomeInfo state) ?y = Inr sp"
    using calcSpouseIncome_total by blast
  define st1 where "st1 = \<lparr>previousYearAssets = nextAssets L state (previousYearAssets st) ?y sp,
            newCashFlow = (newCashFlow st)
              (?y \<mapsto> yearRow L state (previousYearAssets st) ?y sp)\<rparr>"
  have step: "yearBody L state st ?y = Inr st1"
    by (simp add: yearBody_def sp st1_def)
  have suc: "loopStateAfter L state (Suc k) = Inr st1"
    using loopStateAfter_Suc [OF k st] step by simp
  obtain st' where st': "forEach (yearBody L state) (drop (Suc k) ?ys) st1 = Inr st'"
    and init: "initializeCashFlow L state = Inr (state\<lparr>cashFlow := newCashFlow st'\<rparr>)"
    using initializeCashFlow_split [OF k st step] by blast
  have "?ys = take k ?ys @ ?y # drop (Suc k) ?ys"
    using k by (metis id_take_nth_drop nth_years)
  then have "distinct (take k ?ys @ ?y # drop (Suc k) ?ys)"
    using distinct_years [of "basicInfo state"] by simp
  then have "?y \<notin> set (drop (Suc k) ?ys)" by simp
  then have "newCashFlow st' ?y = newCashFlow st1 ?y"
    using forEach_yearBody_frame [OF st'] by blast
  then have row: "newCashFlow st' ?y = Some (yearRow L state (previousYearAssets st) ?y sp)"
    by (simp add: st1_def)
  have "closingAssets L state k = Inr (previousYearAssets st)"
    by (simp add: closingAssets_def st)
  moreover have "closingAssets L state (Suc k)
      = Inr (nextAssets L state (previousYearAssets st) ?y sp)"
    by (simp add: closingAssets_def suc st1_def)
  ultimately show ?thesis using sp init row by simp
qed

lemma initializeCashFlow_dom:
  "\<exists>state'. initializeCashFlow L state = Inr state'
     \<and> dom (cashFlow state') = set (years (basicInfo state))"
proof -
  obtain st' where st': "forEach (yearBody L state) (years (basicInfo state)) (loopStart state) = Inr st'"
    using forEach_yearBody_total by blast
  then have "dom (newCashFlow st') = set (years (basicInfo state))"
    using forEach_yearBody_dom [OF st'] by (simp add: loopStart_def)
  with st' show ?thesis by (simp add: initializeCashFlow_def)
qed

section \<open>Life events\<close>




section \<open>The closing assets\<close>






lemma retiring_years: "length (years (basicInfo retiringState)) = 3"
  by (simp add: length_years retiringState_def initialState_def)





section \<open>The rows of a recompute\<close>

lemma cell_of_recompute:
  assumes "k < length (years (basicInfo state))"
  shows "\<exists>a sp. closingAssets L state k = Inr a
           \<and> calcSpouseIncome L (basicInfo state) (incomeInfo state)
                (startYear (basicInfo state) + int k) = Inr sp
           \<and> (\<forall>field. recomputedCell L state (startYear (basicInfo state) + int k) field
                 = Inr (yearRow L state a (startYear (basicInfo state) + int k) sp field))"
proof -
  from year_of_recompute [OF assms, of L] obtain a sp state'
    where "closingAssets L state k = Inr a"
      and "calcSpouseIncome L (basicInfo state) (incomeInfo state)
                (startYear (basicInfo state) + int k) = Inr sp"
      and "initializeCashFlow L state = Inr state'"
      and "cashFlow state' (startYear (basicInfo state) + int k)
               = Some (yearRow L state a (startYear (basicInfo state) + int k) sp)"
    by blast
  then show ?thesis by (simp add: recomputedCell_def cellOf_def)
qed

lemma yearRow_mainIncome:
  "yearRow L state a yr sp mainIncome
     = Some (toFixed1 (calcMainIncome L (basicInfo state) (incomeInfo state) yr))"
  by (simp add: yearRow_def Let_def)

lemma yearRow_sideIncome: "yearRow L state a yr sp sideIncome = Some 0"
  by (simp add: yearRow_def Let_def)


lemma yearRow_spouseIncome: "yearRow L state a yr sp spouseIncome = Some (toFixed1 sp)"
  by (simp add: yearRow_def Let_def)




lemma calcMainIncome_outside_window:
  assumes "age = currentAge b + (yr - startYear b)"
    and "age < workStartAge inc \<or> workEndAge inc < age"
  shows "calcMainIncome L b inc yr
         = (if age \<ge> pensionStartAge inc
            then calculatePension L (annualIncome inc) (workStartAge inc) (workEndAge inc)
                   (pensionStartAge inc) (occupation b)
            else 0)"
  using assms by (auto simp: calcMainIncome_def Let_def)

text \<open>
  C4 (as the code has it). For every simulated year in which the household head's age
  lies outside the work window, the main income of the year's row is 0 when the age is
  below the pension start age, and the pension estimate rounded to one decimal from the
  pension start age on: the net income from work contributes nothing.
\<close>

theorem mainIncome_outside_work_window:
  assumes "k < length (years (basicInfo state))"
    and "age = currentAge (basicInfo state) + int k"
    and "age < workStartAge (incomeInfo state) \<or> workEndAge (incomeInfo state) < age"
  shows "recomputedCell L state (startYear (basicInfo state) + int k) mainIncome
         = Inr (Some (if age \<ge> pensionStartAge (incomeInfo state)
                      then toFixed1 (calculatePension L (annualIncome (incomeInfo state))
                             (workStartAge (incomeInfo state)) (workEndAge (incomeInfo state))
                             (pensionStartAge (incomeInfo state)) (occupation (basicInfo state)))
                      else 0))"
proof -
  have "calcMainIncome L (basicInfo state) (incomeInfo state) (startYear (basicInfo state) + int k)
        = (if age \<ge> pensionStartAge (incomeInfo state)
            then calculatePension L (annualIncome (incomeInfo state))
                             (workStartAge (incomeInfo state)) (workEndAge (incomeInfo state))
                             (pensionStartAge (incomeInfo state)) (occupation (basicInfo state))
            else 0)"
    using assms(2,3) by (intro calcMainIncome_outside_window) simp_all
  then show ?thesis
    using cell_of_recompute [OF assms(1), of L]
    by (auto simp: yearRow_mainIncome toFixed1_zero)
qed

lemma example_pension:
  "calculatePension exampleCalculations 500 22 60 65 ''company_employee'' = 190"
  by (simp add: exampleCalculations_def)

lemma retiring_profile:
  "currentAge (basicInfo retiringState) = 64" "startYear (basicInfo retiringState) = 2025"
  "deathAge (basicInfo retiringState) = 66"
  "occupation (basicInfo retiringState) = ''company_employee''"
  "annualIncome (incomeInfo retiringState) = 500"
  "workStartAge (incomeInfo retiringState) = 22" "workEndAge (incomeInfo retiringState) = 60"
  "pensionStartAge (incomeInfo retiringState) = 65"
  by (simp_all add: retiringState_def initialState_def)

theorem mainIncome_outside_work_window_witness:
  "recomputedCell exampleCalculations retiringState 2025 mainIncome = Inr (Some 0)
   \<and> recomputedCell exampleCalculations retiringState 2027 mainIncome = Inr (Some 190)"
proof -
  note b = retiring_profile
  have "recomputedCell exampleCalculations retiringState 2025 mainIncome = Inr (Some 0)"
    using mainIncome_outside_work_window [of 0 retiringState 64 exampleCalculations]
    by (simp add: retiring_years b)
  moreover have "recomputedCell exampleCalculations retiringState 2027 mainIncome
                 = Inr (Some 190)"
    using mainIncome_outside_work_window [of 2 retiringState 66 exampleCalculations]
    by (simp add: retiring_years b example_pension toFixed1_def)
  ultimately show ?thesis by simp
qed

text \<open>
  C4 (as the specification words it) fails: in 2026 the household head of
  \<open>retiringState\<close> is 65, outside the work window from 22 to 60, and the main income
  of the row is the pension of 190, not 0.
\<close>

theorem mainIncome_outside_work_window_counterexample:
  "currentAge (basicInfo retiringState) + (2026 - startYear (basicInfo retiringState)) = 65
   \<and> workStartAge (incomeInfo retiringState) = 22
   \<and> workEndAge (incomeInfo retiringState) = 60
   \<and> 2026 \<in> set (years (basicInfo retiringState))
   \<and> recomputedCell exampleCalculations retiringState 2026 mainIncome = Inr (Some 190)"
proof -
  note b = retiring_profile
  have "calcMainIncome exampleCalculations (basicInfo retiringState) (incomeInfo retiringState)
          2026 = 190"
    by (simp add: calcMainIncome_def b example_pension)
  moreover have "1 < length (years (basicInfo retiringState))"
    by (simp add: retiring_years)
  from cell_of_recompute [OF this, of exampleCalculations]
  have "recomputedCell exampleCalculations retiringState 2026 mainIncome
        = Inr (Some (toFixed1 (calcMainIncome exampleCalculations (basicInfo retiringState)
                       (incomeInfo retiringState) 2026)))"
    by (auto simp: b yearRow_mainIncome)
  ultimately show ?thesis
    by (simp add: b set_years toFixed1_def)
qed

section \<open>The years of the table\<close>

lemma take_years:
  "k \<le> length (years b) \<Longrightarrow> set (take k (years b)) = {startYear b ..< startYear b + int k}"
proof -
  assume "k \<le> length (years b)"
  then have "take k (years b) = map (\<lambda>i. startYear b + int i) [0..<k]"
    by (simp add: years_def take_map min_def)
  moreover have "(\<lambda>i. startYear b + int i) ` {0..<k} = {startYear b ..< startYear b + int k}"
  proof
    show "(\<lambda>i. startYear b + int i) ` {0..<k} \<subseteq> {startYear b ..< startYear b + int k}"
      by auto
    show "{startYear b ..< startYear b + int k} \<subseteq> (\<lambda>i. startYear b + int i) ` {0..<k}"
    proof
      fix y assume "y \<in> {startYear b ..< startYear b + int k}"
      then have "y = startYear b + int (nat (y - startYear b))"
        and "nat (y - startYear b) \<in> {0..<k}"
        by auto
      then show "y \<in> (\<lambda>i. startYear b + int i) ` {0..<k}"
        by (rule image_eqI)
    qed
  qed
  ultimately show ?thesis by simp
qed

lemma loopStateAfter_dom:
  assumes "k \<le> length (years (basicInfo state))"
  shows "\<exists>st. loopStateAfter L state k = Inr st
           \<and> dom (newCashFlow st)
               = {startYear (basicInfo state) ..< startYear (basicInfo state) + int k}"
proof -
  obtain st where st: "loopStateAfter L state k = Inr st"
    using loopStateAfter_total by blast
  then have "dom (newCashFlow st) = set (take k (years (basicInfo state)))"
    unfolding loopStateAfter_def using forEach_yearBody_dom [of L state _ "loopStart state" st]
    by (simp add: loopStart_def)
  with st show ?thesis by (simp add: take_years [OF assms])
qed

text \<open>
  C7. For every profile with \<open>deathAge \<ge> currentAge\<close>, a full recompute succeeds
  and the years that have a row in the table it stores are exactly the calendar years
  from \<open>startYear\<close> to \<open>startYear + (deathAge - currentAge)\<close>, which are
  \<open>deathAge - currentAge + 1\<close> years. The loop visits these years in ascending order,
  each once: its list of years is the ascending list of that interval, and when the body
  has run \<open>k\<close> times the table built so far has rows for the first \<open>k\<close> years and
  no other.
\<close>

theorem cashFlow_covers_horizon:
  assumes "currentAge (basicInfo state) \<le> deathAge (basicInfo state)"
  shows "\<exists>state'. initializeCashFlow L state = Inr state'
           \<and> dom (cashFlow state')
               = {startYear (basicInfo state) ..
                  startYear (basicInfo state)
                  + (deathAge (basicInfo state) - currentAge (basicInfo state))}
           \<and> card (dom (cashFlow state'))
               = nat (deathAge (basicInfo state) - currentAge (basicInfo state)) + 1
           \<and> years (basicInfo state)
               = [startYear (basicInfo state) ..
                  startYear (basicInfo state)
                  + (deathAge (basicInfo state) - currentAge (basicInfo state))]
           \<and> (\<forall>k \<le> length (years (basicInfo state)).
                \<exists>st. loopStateAfter L state k = Inr st
                  \<and> dom (newCashFlow st)
                      = {startYear (basicInfo state) ..< startYear (basicInfo state) + int k})"
proof -
  obtain state' where init: "initializeCashFlow L state = Inr state'"
    and d: "dom (cashFlow state') = set (years (basicInfo state))"
    using initializeCashFlow_dom by blast
  have "card (set (years (basicInfo state))) = length (years (basicInfo state))"
    using distinct_years by (rule distinct_card)
  also have "\<dots> = nat (deathAge (basicInfo state) - currentAge (basicInfo state)) + 1"
    using assms by (simp add: length_years nat_add_distrib)
  finally have "card (dom (cashFlow state'))
      = nat (deathAge (basicInfo state) - currentAge (basicInfo state)) + 1"
    using d by simp
  with init d show ?thesis
    by (simp add: set_years years_upto [symmetric] loopStateAfter_dom)
qed

theorem cashFlow_covers_horizon_witness:
  "\<exists>state'. initializeCashFlow exampleCalculations retiringState = Inr state'
     \<and> dom (cashFlow state') = {2025 .. 2027} \<and> card (dom (cashFlow state')) = 3"
  using cashFlow_covers_horizon [of retiringState exampleCalculations]
  by (auto simp: retiring_profile)

section \<open>Spouse income\<close>

lemma calcSpouseIncome_planning:
  assumes "maritalStatus b = Planning" and "spouseInfo b = Some si"
    and "spouse_marriageAge si = Some ma"
  shows "calcSpouseIncome L b inc yr =
           (if yr \<ge> marriageYearOf b ma \<and> spouse inc \<noteq> None \<and> spouse_age si \<noteq> None
            then Inr (spouseEarnings L inc (the (spouse inc))
                        (orDefault (spouse_occupation si) ''company_employee'')
                        (the (spouse_age si) + (yr - marriageYearOf b ma)) yr
                        (marriageYearOf b ma))
            else Inr 0)"
  using assms
  by (auto simp: calcSpouseIncome_def Let_def optChain_def deref_def operand_def)

lemma spouseEarnings_sum:
  "spouseEarnings L inc sp occ spouseAge yr baseYear
   = (if spouse_workStartAge sp \<le> spouseAge \<and> spouseAge \<le> spouse_workEndAge sp
      then calculateNetIncomeWithRaise L (spouse_annualIncome sp) occ 0 yr baseYear else 0)
     + (if pensionStartAge inc \<le> spouseAge
        then calculatePension L (spouse_annualIncome sp) (spouse_workStartAge sp)
               (spouse_workEndAge sp) (pensionStartAge inc) occ
        else 0)"
  by (simp add: spouseEarnings_def Let_def)

lemma spouseIncome_cell:
  assumes "k < length (years (basicInfo state))"
    and "calcSpouseIncome L (basicInfo state) (incomeInfo state)
           (startYear (basicInfo state) + int k) = Inr v"
  shows "recomputedCell L state (startYear (basicInfo state) + int k) spouseIncome
         = Inr (Some (toFixed1 v))"
  using cell_of_recompute [OF assms(1), of L] assms(2)
  by (auto simp: yearRow_spouseIncome)

text \<open>
  C5. When the marital status is \<^verbatim>\<open>'planning'\<close> and the spouse profile declares a
  marriage age, let the marriage year be \<open>startYear + (marriageAge - currentAge)\<close>. In every
  simulated year before the marriage year the spouse income is 0, in the recurrence and
  in the row. In every simulated year from the marriage year on (with a spouse income
  record and a spouse age declared) the spouse's age is the declared age plus the years
  since the marriage year, and the spouse income is the net income inside the spouse's
  work window, computed by \<^verbatim>\<open>calculateNetIncomeWithRaise\<close> with the marriage year as
  its base year, plus the pension from the pension start age on; the row has it rounded
  to one decimal.
\<close>

theorem planned_marriage_spouseIncome:
  assumes "maritalStatus (basicInfo state) = Planning"
    and "spouseInfo (basicInfo state) = Some si"
    and "spouse_marriageAge si = Some ma"
    and "k < length (years (basicInfo state))"
    and "yr = startYear (basicInfo state) + int k"
    and "marriageYear = startYear (basicInfo state) + (ma - currentAge (basicInfo state))"
  shows "marriageYearOf (basicInfo state) ma = marriageYear
    \<and> (yr < marriageYear \<longrightarrow>
         calcSpouseIncome L (basicInfo state) (incomeInfo state) yr = Inr 0
         \<and> recomputedCell L state yr spouseIncome = Inr (Some 0))
    \<and> (\<forall>sp a. marriageYear \<le> yr \<and> spouse (incomeInfo state) = Some sp \<and> spouse_age si = Some a
         \<longrightarrow> (\<exists>v. v = (if spouse_workStartAge sp \<le> a + (yr - marriageYear)
                            \<and> a + (yr - marriageYear) \<le> spouse_workEndAge sp
                         then calculateNetIncomeWithRaise L (spouse_annualIncome sp)
                                (orDefault (spouse_occupation si) ''company_employee'')
                                0 yr marriageYear
                         else 0)
                      + (if pensionStartAge (incomeInfo state) \<le> a + (yr - marriageYear)
                         then calculatePension L (spouse_annualIncome sp)
                                (spouse_workStartAge sp) (spouse_workEndAge sp)
                                (pensionStartAge (incomeInfo state))
                                (orDefault (spouse_occupation si) ''company_employee'')
                         else 0)
                \<and> calcSpouseIncome L (basicInfo state) (incomeInfo state) yr = Inr v
                \<and> recomputedCell L state yr spouseIncome = Inr (Some (toFixed1 v))))"
proof (intro conjI impI allI)
  show "marriageYearOf (basicInfo state) ma = marriageYear"
    using assms(6) by (simp add: marriageYearOf_def)
next
  assume "yr < marriageYear"
  then show before: "calcSpouseIncome L (basicInfo state) (incomeInfo state) yr = Inr 0"
    using assms(6) by (simp add: calcSpouseIncome_planning [OF assms(1-3)] marriageYearOf_def)
  show "recomputedCell L state yr spouseIncome = Inr (Some 0)"
    using spouseIncome_cell [OF assms(4), of L 0] before assms(5)
    by (simp add: toFixed1_zero)
next
  fix sp a
  assume h: "marriageYear \<le> yr \<and> spouse (incomeInfo state) = Some sp \<and> spouse_age si = Some a"
  define v where "v = (if spouse_workStartAge sp \<le> a + (yr - marriageYear)
                            \<and> a + (yr - marriageYear) \<le> spouse_workEndAge sp
                         then calculateNetIncomeWithRaise L (spouse_annualIncome sp)
                                (orDefault (spouse_occupation si) ''company_employee'')
                                0 yr marriageYear
                         else 0)
                      + (if pensionStartAge (incomeInfo state) \<le> a + (yr - marriageYear)
                         then calculatePension L (spouse_annualIncome sp)
                                (spouse_workStartAge sp) (spouse_workEndAge sp)
                                (pensionStartAge (incomeInfo state))
                                (orDefault (spouse_occupation si) ''company_employee'')
                         else 0)"
  have sp: "calcSpouseIncome L (basicInfo state) (incomeInfo state) yr = Inr v"
    using h assms(6)
    by (simp add: calcSpouseIncome_planning [OF assms(1-3)] spouseEarnings_sum v_def
          marriageYearOf_def)
  then have "recomputedCell L state yr spouseIncome = Inr (Some (toFixed1 v))"
    using spouseIncome_cell [OF assms(4), of L v] assms(5) by simp
  with sp show "\<exists>v. v = (if spouse_workStartAge sp \<le> a + (yr - marriageYear)
                            \<and> a + (yr - marriageYear) \<le> spouse_workEndAge sp
                         then calculateNetIncomeWithRaise L (spouse_annualIncome sp)
                                (orDefault (spouse_occupation si) ''company_employee'')
                                0 yr marriageYear
                         else 0)
                      + (if pensionStartAge (incomeInfo state) \<le> a + (yr - marriageYear)
                         then calculatePension L (spouse_annualIncome sp)
                                (spouse_workStartAge sp) (spouse_workEndAge sp)
                                (pensionStartAge (incomeInfo state))
                                (orDefault (spouse_occupation si) ''company_employee'')
                         else 0)
                \<and> calcSpouseIncome L (basicInfo state) (incomeInfo state) yr = Inr v
                \<and> recomputedCell L state yr spouseIncome = Inr (Some (toFixed1 v))"
    unfolding v_def by blast
qed

lemma engaged_profile:
  "maritalStatus (basicInfo engagedState) = Planning"
  "spouseInfo (basicInfo engagedState)
     = Some \<lparr>spouse_age = Some 28, spouse_currentAge = None, spouse_marriageAge = Some 32,
             spouse_occupation = None, spouse_additionalExpense = None\<rparr>"
  "spouse (incomeInfo engagedState)
     = Some \<lparr>spouse_annualIncome = 300, spouse_severancePay = 0, spouse_workStartAge = 22,
             spouse_workEndAge = 60, spouse_pensionAmount = 0\<rparr>"
  "currentAge (basicInfo engagedState) = 30" "startYear (basicInfo engagedState) = 2025"
  "deathAge (basicInfo engagedState) = 33" "pensionStartAge (incomeInfo engagedState) = 65"
  by (simp_all add: engagedState_def initialState_def)

lemma example_spouse_netIncome:
  "calculateNetIncomeWithRaise exampleCalculations 300 ''company_employee'' 0 2028 2027 = 240"
  by (simp add: exampleCalculations_def Math_pow_def toFixed1_def)

theorem planned_marriage_spouseIncome_witness:
  "recomputedCell exampleCalculations engagedState 2026 spouseIncome = Inr (Some 0)
   \<and> recomputedCell exampleCalculations engagedState 2028 spouseIncome = Inr (Some 240)"
proof -
  let ?si = "\<lparr>spouse_age = Some 28, spouse_currentAge = None, spouse_marriageAge = Some 32,
             spouse_occupation = None, spouse_additionalExpense = None\<rparr>"
  let ?sp = "\<lparr>spouse_annualIncome = 300, spouse_severancePay = 0, spouse_workStartAge = 22,
             spouse_workEndAge = 60, spouse_pensionAmount = 0\<rparr>"
  note p = engaged_profile
  have len: "length (years (basicInfo engagedState)) = 4"
    by (simp add: length_years p)
  have "recomputedCell exampleCalculations engagedState 2026 spouseIncome = Inr (Some 0)"
    using planned_marriage_spouseIncome
      [of engagedState ?si 32 1 2026 2027 exampleCalculations]
    by (simp add: p len)
  moreover
  have "recomputedCell exampleCalculations engagedState 2028 spouseIncome = Inr (Some 240)"
    using planned_marriage_spouseIncome
      [of engagedState ?si 32 3 2028 2027 exampleCalculations, THEN conjunct2,
       THEN conjunct2, rule_format, of ?sp 28]
    by (simp add: p len orDefault_def example_spouse_netIncome toFixed1_def)
  ultimately show ?thesis by simp
qed

section \<open>An absent spouse\<close>

lemma calcSpouseIncome_absent:
  "spouseInfo b = None \<or> spouse inc = None \<Longrightarrow> calcSpouseIncome L b inc yr = Inr 0"
  by (auto simp: calcSpouseIncome_def Let_def optChain_def deref_def operand_def
           split: option.splits)

lemma year_index:
  "yr \<in> set (years b) \<Longrightarrow> \<exists>k < length (years b). yr = startYear b + int k"
  by (metis in_set_conv_nth nth_years)

lemma recomputedCell_cellOf:
  "initializeCashFlow L state = Inr state'
   \<Longrightarrow> recomputedCell L state yr field = Inr (cellOf (cashFlow state') yr field)"
  by (simp add: recomputedCell_def)

lemma yearRow_defined: "yearRow L state a yr sp field \<noteq> None"
  by (cases field) (simp_all add: yearRow_def Let_def)

text \<open>
  C8. For every input in which the spouse profile or the spouse income record is absent,
  whatever the marital status and so also when it is \<^verbatim>\<open>'married'\<close> or
  \<^verbatim>\<open>'planning'\<close>, a full recompute does not fail: it stores a table that has a row
  for every year of the horizon, every field of every row has a value, and the spouse
  income is 0 in every year, in the recurrence and in the row.
\<close>

theorem absent_spouse_counts_zero:
  assumes "spouseInfo (basicInfo state) = None \<or> spouse (incomeInfo state) = None"
  shows "\<exists>state'. initializeCashFlow L state = Inr state'
           \<and> dom (cashFlow state') = set (years (basicInfo state))
           \<and> (\<forall>yr \<in> set (years (basicInfo state)).
                calcSpouseIncome L (basicInfo state) (incomeInfo state) yr = Inr 0
                \<and> cellOf (cashFlow state') yr spouseIncome = Some 0
                \<and> (\<forall>field. cellOf (cashFlow state') yr field \<noteq> None))"
proof -
  obtain state' where init: "initializeCashFlow L state = Inr state'"
    and d: "dom (cashFlow state') = set (years (basicInfo state))"
    using initializeCashFlow_dom by blast
  have "calcSpouseIncome L (basicInfo state) (incomeInfo state) yr = Inr 0
        \<and> cellOf (cashFlow state') yr spouseIncome = Some 0
        \<and> (\<forall>field. cellOf (cashFlow state') yr field \<noteq> None)"
    if "yr \<in> set (years (basicInfo state))" for yr
  proof -
    from that obtain k where k: "k < length (years (basicInfo state))"
      and yr: "yr = startYear (basicInfo state) + int k"
      using year_index by blast
    have zero: "calcSpouseIncome L (basicInfo state) (incomeInfo state) yr = Inr 0"
      using assms by (rule calcSpouseIncome_absent)
    from cell_of_recompute [OF k, of L] obtain a
      where "\<forall>field. recomputedCell L state yr field = Inr (yearRow L state a yr 0 field)"
      using zero yr by auto
    then have "cellOf (cashFlow state') yr field = yearRow L state a yr 0 field" for field
      using recomputedCell_cellOf [OF init, of yr field] by simp
    then show ?thesis
      using zero by (simp add: yearRow_spouseIncome yearRow_defined toFixed1_zero)
  qed
  with init d show ?thesis by blast
qed

lemma married_alone_years: "years (basicInfo marriedAloneState) = [2025, 2026]"
  by (simp add: years_upto marriedAloneState_def initialState_def upto.simps)

theorem absent_spouse_counts_zero_witness:
  "\<exists>state'. initializeCashFlow exampleCalculations marriedAloneState = Inr state'
     \<and> dom (cashFlow state') = {2025, 2026}
     \<and> cellOf (cashFlow state') 2025 spouseIncome = Some 0
     \<and> cellOf (cashFlow state') 2026 spouseIncome = Some 0"
proof -
  have "spouseInfo (basicInfo marriedAloneState) = None
        \<or> spouse (incomeInfo marriedAloneState) = None"
    by (simp add: marriedAloneState_def initialState_def)
  from absent_spouse_counts_zero [OF this, of exampleCalculations]
  show ?thesis by (auto simp: married_alone_years)
qed

section \<open>Side income and severance pay\<close>

lemma yearBody_ignores_sideIncome:
  assumes "state2 = state\<lparr>incomeInfo := (incomeInfo state)
             \<lparr>sideIncomes := sis, severancePay := sev,
              spouse := map_option (\<lambda>sp. sp\<lparr>spouse_severancePay := ssev\<rparr>)
                          (spouse (incomeInfo state))\<rparr>\<rparr>"
  shows "yearBody L state2 = yearBody L state"
proof (intro ext)
  fix st yr
  have sp: "calcSpouseIncome L (basicInfo state2) (incomeInfo state2) yr
        = calcSpouseIncome L (basicInfo state) (incomeInfo state) yr"
    unfolding assms
    by (auto simp: calcSpouseIncome_def Let_def optChain_def deref_def operand_def
          spouseEarnings_def split: option.splits)
  have "calcMainIncome L (basicInfo state2) (incomeInfo state2) yr
        = calcMainIncome L (basicInfo state) (incomeInfo state) yr"
    unfolding assms by (simp add: calcMainIncome_def Let_def)
  then have "nextAssets L state2 a yr v = nextAssets L state a yr v"
    and "yearRow L state2 a yr v = yearRow L state a yr v" for a v
    by (simp_all add: nextAssets_def yearRow_def Let_def assms)
  with sp show "yearBody L state2 st yr = yearBody L state st yr"
    by (simp add: yearBody_def)
qed

text \<open>
  C9. For every input, a full recompute succeeds and every row of the table it stores
  has a side income of exactly 0. The list of side incomes and the severance pay of the
  income profile (and that of the spouse) are never read: with any other list and any
  other severance pay in the input, the recompute stores the same table, and the closing
  assets after every number of years are the same.
\<close>

theorem sideIncome_always_zero:
  "\<exists>state'. initializeCashFlow L state = Inr state'
     \<and> (\<forall>yr \<in> dom (cashFlow state'). cellOf (cashFlow state') yr sideIncome = Some 0)
     \<and> (\<forall>sis sev ssev.
          initializeCashFlow L
            (state\<lparr>incomeInfo := (incomeInfo state)
               \<lparr>sideIncomes := sis, severancePay := sev,
                spouse := map_option (\<lambda>sp. sp\<lparr>spouse_severancePay := ssev\<rparr>)
                            (spouse (incomeInfo state))\<rparr>\<rparr>)
          = Inr (state\<lparr>incomeInfo := (incomeInfo state)
               \<lparr>sideIncomes := sis, severancePay := sev,
                spouse := map_option (\<lambda>sp. sp\<lparr>spouse_severancePay := ssev\<rparr>)
                            (spouse (incomeInfo state))\<rparr>,
                    cashFlow := cashFlow state'\<rparr>)
          \<and> (\<forall>k. closingAssets L
                 (state\<lparr>incomeInfo := (incomeInfo state)
                    \<lparr>sideIncomes := sis, severancePay := sev,
                     spouse := map_option (\<lambda>sp. sp\<lparr>spouse_severancePay := ssev\<rparr>)
                                 (spouse (incomeInfo state))\<rparr>\<rparr>) k
               = closingAssets L state k))"
proof -
  obtain st where st: "forEach (yearBody L state) (years (basicInfo state)) (loopStart state)
                       = Inr st"
    using forEach_yearBody_total by blast
  define state' where "state' = state\<lparr>cashFlow := newCashFlow st\<rparr>"
  have init: "initializeCashFlow L state = Inr state'"
    by (simp add: initializeCashFlow_def st state'_def)
  have d: "dom (cashFlow state') = set (years (basicInfo state))"
    using initializeCashFlow_dom [of L state] init by simp
  have side: "cellOf (cashFlow state') yr sideIncome = Some 0"
    if "yr \<in> dom (cashFlow state')" for yr
  proof -
    from that d obtain k where k: "k < length (years (basicInfo state))"
      and yr: "yr = startYear (basicInfo state) + int k"
      using year_index by blast
    from cell_of_recompute [OF k, of L]
    have "recomputedCell L state yr sideIncome = Inr (Some 0)"
      using yr by (auto simp: yearRow_sideIncome)
    then show ?thesis
      using recomputedCell_cellOf [OF init, of yr sideIncome] by simp
  qed
  have same: "initializeCashFlow L state2 = Inr (state2\<lparr>cashFlow := cashFlow state'\<rparr>)
              \<and> (\<forall>k. closingAssets L state2 k = closingAssets L state k)"
    if "state2 = state\<lparr>incomeInfo := (incomeInfo state)
             \<lparr>sideIncomes := sis, severancePay := sev,
              spouse := map_option (\<lambda>sp. sp\<lparr>spouse_severancePay := ssev\<rparr>)
                          (spouse (incomeInfo state))\<rparr>\<rparr>" for state2 sis sev ssev
  proof -
    have body: "yearBody L state2 = yearBody L state"
      using that by (rule yearBody_ignores_sideIncome)
    have other: "basicInfo state2 = basicInfo state" "loopStart state2 = loopStart state"
      using that by (simp_all add: loopStart_def)
    show ?thesis
      by (simp add: initializeCashFlow_def closingAssets_def loopStateAfter_def body other st
            state'_def)
  qed
  show ?thesis
    using init side same by (intro exI [of _ state']) simp
qed

theorem sideIncome_always_zero_witness:
  "\<exists>state'. initializeCashFlow exampleCalculations retiringState = Inr state'
     \<and> cellOf (cashFlow state') 2025 sideIncome = Some 0
     \<and> cellOf (cashFlow state') 2026 sideIncome = Some 0
     \<and> cellOf (cashFlow state') 2027 sideIncome = Some 0"
proof -
  from sideIncome_always_zero [of exampleCalculations retiringState]
  obtain state' where init: "initializeCashFlow exampleCalculations retiringState = Inr state'"
    and side: "\<forall>yr \<in> dom (cashFlow state'). cellOf (cashFlow state') yr sideIncome = Some 0"
    by blast
  have "dom (cashFlow state') = {2025 .. 2027}"
    using initializeCashFlow_dom [of exampleCalculations retiringState] init
    by (simp add: set_years retiring_profile)
  with side have "cellOf (cashFlow state') 2025 sideIncome = Some 0"
    "cellOf (cashFlow state') 2026 sideIncome = Some 0"
    "cellOf (cashFlow state') 2027 sideIncome = Some 0"
    by simp_all
  with init show ?thesis by blast
qed

section \<open>Editing one cell\<close>

text \<open>
  C10. For every store state, year, field and value, \<^verbatim>\<open>updateCashFlowValue\<close> sets
  that cell to the value, leaves the rows of all other years as they are and the other
  fields of the year's row as they are, and changes nothing of the state but the table:
  the profiles are not touched and nothing is recomputed.
\<close>

theorem updateCashFlowValue_frame:
  "cellOf (cashFlow (updateCashFlowValue yr field v state)) yr field = Some v
   \<and> (\<forall>yr'. yr' \<noteq> yr \<longrightarrow>
         cashFlow (updateCashFlowValue yr field v state) yr' = cashFlow state yr')
   \<and> (\<forall>field'. field' \<noteq> field \<longrightarrow>
         cellOf (cashFlow (updateCashFlowValue yr field v state)) yr field'
         = cellOf (cashFlow state) yr field')
   \<and> updateCashFlowValue yr field v state
       = state\<lparr>cashFlow := cashFlow (updateCashFlowValue yr field v state)\<rparr>"
  by (simp add: updateCashFlowValue_def cellOf_def split: option.splits)

theorem updateCashFlowValue_frame_witness:
  "cellOf (cashFlow (updateCashFlowValue 2025 mainIncome 7 editedState)) 2025 mainIncome = Some 7
   \<and> cashFlow (updateCashFlowValue 2025 mainIncome 7 editedState) 2026
       = cashFlow editedState 2026
   \<and> cellOf (cashFlow (updateCashFlowValue 2025 mainIncome 7 editedState)) 2025 livingExpense
       = Some 240
   \<and> cellOf (cashFlow (updateCashFlowValue 2027 mainIncome 7 editedState)) 2027 livingExpense
       = None"
proof -
  have "cellOf (cashFlow editedState) 2025 livingExpense = Some 240"
    "cellOf (cashFlow editedState) 2027 livingExpense = None"
    by (simp_all add: editedState_def cellOf_def)
  then show ?thesis
    using updateCashFlowValue_frame [of 2025 mainIncome 7 editedState]
      updateCashFlowValue_frame [of 2027 mainIncome 7 editedState]
    by simp
qed

section \<open>Education\<close>

















end
